theory Spec2Isabelle
  imports Complex_Main
begin

section \<open>JavaScript values\<close>

text \<open>
  The component of \<^verbatim>\<open>src/app.js\<close> keeps untyped JavaScript values in its state slots and
  receives them from \<^verbatim>\<open>JSON.parse\<close>. They are modelled by one datatype; an object is the
  list of its own properties, a number is the rational value of its double. Strings are
  lists of \<^typ>\<open>char\<close>, so the model covers the strings whose code units are below 256.
\<close>

datatype jsval =
    JUndefined
  | JNull
  | JBool bool
  | JNum rat
  | JStr string
  | JArr "jsval list"
  | JObj "(string \<times> jsval) list"

text \<open>How a call ends: with a value, or with a thrown \<^verbatim>\<open>Error\<close> (its \<^verbatim>\<open>message\<close>).\<close>

datatype 'a completion = Returned 'a | Threw string

text \<open>A thrown error inside an expression is \<open>Inl\<close> of its message.\<close>

fun andThen :: "string + 'a \<Rightarrow> ('a \<Rightarrow> string + 'b) \<Rightarrow> string + 'b" where
  "andThen (Inl e) f = Inl e"
| "andThen (Inr x) f = f x"

text \<open>\<^verbatim>\<open>ToBoolean\<close>, as used by \<^verbatim>\<open>if (v)\<close>, \<^verbatim>\<open>!v\<close>, \<^verbatim>\<open>a && b\<close> and \<^verbatim>\<open>a || b\<close>.\<close>

fun truthy :: "jsval \<Rightarrow> bool" where
  "truthy JUndefined = False"
| "truthy JNull = False"
| "truthy (JBool b) = b"
| "truthy (JNum q) = (q \<noteq> 0)"
| "truthy (JStr s) = (s \<noteq> [])"
| "truthy (JArr xs) = True"
| "truthy (JObj kvs) = True"

fun nullish :: "jsval \<Rightarrow> bool" where
  "nullish JUndefined = True"
| "nullish JNull = True"
| "nullish v = False"

text \<open>
  What the JavaScript engine does and the repository does not define is a parameter:
  \<^verbatim>\<open>JSON.parse\<close> on a string (\<open>Inl\<close> is the message of its SyntaxError), \<^verbatim>\<open>ToString\<close> of a
  value that is not a string (number formatting, array joining, \<^verbatim>\<open>[object Object]\<close>, or the
  TypeError of an object that shadows \<^verbatim>\<open>toString\<close>), the comparison \<^verbatim>\<open>v > 0\<close> for a
  string, array or object \<open>v\<close>, the text of the TypeError raised by reading a property of
  \<^verbatim>\<open>null\<close> or \<^verbatim>\<open>undefined\<close> (from the value and the property name), and the text of the
  TypeError raised by calling what is not a function (from the source text of the callee).
\<close>

record platform =
  JSON_parse :: "string \<Rightarrow> string + jsval"
  ToString_other :: "jsval \<Rightarrow> string + string"
  GreaterThanZero_other :: "jsval \<Rightarrow> string + bool"
  TypeError_message :: "jsval \<Rightarrow> string \<Rightarrow> string"
  NotAFunction_message :: "string \<Rightarrow> string"

text \<open>
  Reading a property of a value that is neither \<^verbatim>\<open>null\<close> nor \<^verbatim>\<open>undefined\<close>. The program
  reads the data properties \<^verbatim>\<open>candidates\<close>, \<^verbatim>\<open>content\<close>, \<^verbatim>\<open>parts\<close>, \<^verbatim>\<open>text\<close>, \<^verbatim>\<open>error\<close>,
  \<^verbatim>\<open>message\<close>, \<^verbatim>\<open>description\<close>, \<^verbatim>\<open>keyFeatures\<close>, \<^verbatim>\<open>names\<close>, \<^verbatim>\<open>taglines\<close>, \<^verbatim>\<open>strategies\<close>,
  \<^verbatim>\<open>length\<close> and the index \<^verbatim>\<open>0\<close>; none of them is inherited from a prototype except
  \<^verbatim>\<open>length\<close> and \<^verbatim>\<open>0\<close> of arrays and strings.
\<close>

fun property :: "jsval \<Rightarrow> string \<Rightarrow> jsval" where
  "property (JObj kvs) name = (case map_of kvs name of Some v \<Rightarrow> v | None \<Rightarrow> JUndefined)"
| "property (JArr xs) name =
     (if name = ''length'' then JNum (of_nat (length xs))
      else if name = ''0'' then (case xs of [] \<Rightarrow> JUndefined | x # _ \<Rightarrow> x)
      else JUndefined)"
| "property (JStr s) name =
     (if name = ''length'' then JNum (of_nat (length s))
      else if name = ''0'' then (case s of [] \<Rightarrow> JUndefined | c # _ \<Rightarrow> JStr [c])
      else JUndefined)"
| "property v name = JUndefined"

text \<open>\<^verbatim>\<open>v.name\<close>: a TypeError when \<open>v\<close> is \<^verbatim>\<open>null\<close> or \<^verbatim>\<open>undefined\<close>.\<close>

definition get :: "platform \<Rightarrow> jsval \<Rightarrow> string \<Rightarrow> string + jsval" where
  "get P v name = (if nullish v then Inl (TypeError_message P v name) else Inr (property v name))"

text \<open>\<^verbatim>\<open>ToString\<close>, as applied by a template literal and by \<^verbatim>\<open>JSON.parse\<close> to its argument.\<close>

definition ToString :: "platform \<Rightarrow> jsval \<Rightarrow> string + string" where
  "ToString P v = (case v of JStr s \<Rightarrow> Inr s | _ \<Rightarrow> ToString_other P v)"

text \<open>\<^verbatim>\<open>v > 0\<close>.\<close>

definition greaterThanZero :: "platform \<Rightarrow> jsval \<Rightarrow> string + bool" where
  "greaterThanZero P v =
     (case v of
        JNum q \<Rightarrow> Inr (0 < q)
      | JUndefined \<Rightarrow> Inr False
      | JNull \<Rightarrow> Inr False
      | JBool b \<Rightarrow> Inr b
      | _ \<Rightarrow> GreaterThanZero_other P v)"

text \<open>\<^verbatim>\<open>String.prototype.trim\<close>: white space and line terminators below code unit 256.\<close>

definition isWhiteSpace :: "char \<Rightarrow> bool" where
  "isWhiteSpace c = ((of_char c :: nat) \<in> {9, 10, 11, 12, 13, 32, 160})"

definition trim :: "string \<Rightarrow> string" where
  "trim s = rev (dropWhile isWhiteSpace (rev (dropWhile isWhiteSpace s)))"

text \<open>\<^verbatim>\<open>Array.prototype.join\<close>: an element that is \<^verbatim>\<open>null\<close> or \<^verbatim>\<open>undefined\<close> gives the empty string.\<close>

fun elementStrings :: "platform \<Rightarrow> jsval list \<Rightarrow> string + string list" where
  "elementStrings P [] = Inr []"
| "elementStrings P (x # xs) =
     andThen (if nullish x then Inr [] else ToString P x)
       (\<lambda>s. andThen (elementStrings P xs) (\<lambda>ss. Inr (s # ss)))"

fun intercalate :: "string \<Rightarrow> string list \<Rightarrow> string" where
  "intercalate sep [] = []"
| "intercalate sep [s] = s"
| "intercalate sep (s # t # ss) = s @ sep @ intercalate sep (t # ss)"

text \<open>
  \<^verbatim>\<open>v.join(sep)\<close> for a truthy \<open>v\<close>, written \<open>callee\<close> in the source: a value from
  \<^verbatim>\<open>JSON.parse\<close> holds no function, so only an array has a callable \<^verbatim>\<open>join\<close>.
\<close>

definition join :: "platform \<Rightarrow> string \<Rightarrow> jsval \<Rightarrow> string \<Rightarrow> string + string" where
  "join P callee v sep =
     (case v of
        JArr xs \<Rightarrow> andThen (elementStrings P xs) (\<lambda>ss. Inr (intercalate sep ss))
      | _ \<Rightarrow> Inl (NotAFunction_message P callee))"

text \<open>The decimal digits of a number, as a template literal prints an integer.\<close>

fun showNat :: "nat \<Rightarrow> string" where
  "showNat n =
     (if n < 10 then [''0123456789'' ! n]
      else showNat (n div 10) @ [''0123456789'' ! (n mod 10)])"

declare showNat.simps [simp del]

section \<open>The HTTP transport\<close>

record request =
  url :: string
  httpMethod :: string
  contentType :: string
  payload :: jsval

text \<open>
  A response: reading its body (\<^verbatim>\<open>text()\<close>, \<^verbatim>\<open>json()\<close>) can itself fail (\<open>Inl\<close>), and
  \<^verbatim>\<open>response.ok\<close> is true for the statuses 200 to 299.
\<close>

record response =
  status :: nat
  statusText :: string
  body :: "string + string"

definition ok :: "response \<Rightarrow> bool" where
  "ok r = (200 \<le> status r \<and> status r \<le> 299)"

datatype fetch_result = Rejected string | Responded response

type_synonym transport = "request \<Rightarrow> fetch_result"

section \<open>View state\<close>

text \<open>
  The \<^verbatim>\<open>useState\<close> slots of \<^verbatim>\<open>App\<close>, and the requests issued so far. An absent result is
  \<^verbatim>\<open>null\<close>.
\<close>

record state =
  simpleIdea :: string
  enhancedPrompt :: jsval
  customPrompt :: jsval
  appPreview :: jsval
  isLoadingEnhance :: bool
  isLoadingPreview :: bool
  error :: string
  isPromptEnhanced :: bool
  appNamesSlogans :: jsval
  monetizationStrategies :: jsval
  techStackSuggestions :: jsval
  isLoadingNames :: bool
  isLoadingMonetization :: bool
  isLoadingTechStack :: bool
  requests :: "request list"

definition setError :: "string \<Rightarrow> state \<Rightarrow> state" where
  "setError msg st = st\<lparr>error := msg\<rparr>"

definition clearError :: "state \<Rightarrow> state" where
  "clearError st = setError [] st"

section \<open>The gateway call\<close>

definition defaultModel :: string where
  "defaultModel = ''gemini-2.0-flash''"

definition apiKey :: string where
  "apiKey = []"

definition apiUrl :: "string \<Rightarrow> string" where
  "apiUrl modelName =
     ''https://generativelanguage.googleapis.com/v1beta/models/'' @ modelName
       @ '':generateContent?key='' @ apiKey"

definition buildPayload :: "string \<Rightarrow> jsval \<Rightarrow> jsval" where
  "buildPayload promptText responseSchema =
     (let chatHistory =
            JArr [JObj [(''role'', JStr ''user''),
                        (''parts'', JArr [JObj [(''text'', JStr promptText)]])]]
      in if truthy responseSchema
         then JObj [(''contents'', chatHistory),
                    (''generationConfig'',
                       JObj [(''responseMimeType'', JStr ''application/json''),
                             (''responseSchema'', responseSchema)])]
         else JObj [(''contents'', chatHistory)])"

definition buildRequest :: "string \<Rightarrow> string \<Rightarrow> jsval \<Rightarrow> request" where
  "buildRequest promptText modelName responseSchema =
     \<lparr>url = apiUrl modelName, httpMethod = ''POST'', contentType = ''application/json'',
      payload = buildPayload promptText responseSchema\<rparr>"

definition emptyResponseMessage :: string where
  "emptyResponseMessage = ''Empty response from AI. Please try again.''"

definition unexpectedStructureMessage :: string where
  "unexpectedStructureMessage = ''Unexpected API response structure or no content generated.''"

definition invalidInnerJsonMessage :: string where
  "invalidInnerJsonMessage = ''AI returned invalid JSON within its content. Please try again.''"

text \<open>\<^verbatim>\<open>errorData.error?.message || response.statusText\<close>, converted by the template literal.\<close>

definition errorReason :: "platform \<Rightarrow> response \<Rightarrow> jsval \<Rightarrow> string + string" where
  "errorReason P r errorData =
     andThen (get P errorData ''error'')
       (\<lambda>e. let m = (if nullish e then JUndefined else property e ''message'')
            in ToString P (if truthy m then m else JStr (statusText r)))"

definition apiErrorMessage :: "nat \<Rightarrow> string \<Rightarrow> string" where
  "apiErrorMessage code reason = ''API error: '' @ showNat code @ '' - '' @ reason"

text \<open>
  The test of the candidate/content path and the read of the first part's text; \<open>Inl\<close> is a
  thrown error: the explicit one of the \<^verbatim>\<open>else\<close> branch or a TypeError of a property read.
\<close>

definition extractText :: "platform \<Rightarrow> jsval \<Rightarrow> string + jsval" where
  "extractText P result =
     andThen (get P result ''candidates'') (\<lambda>candidates.
       if \<not> truthy candidates then Inl unexpectedStructureMessage
       else andThen (greaterThanZero P (property candidates ''length'')) (\<lambda>some.
         if \<not> some then Inl unexpectedStructureMessage
         else andThen (get P (property candidates ''0'') ''content'') (\<lambda>content.
           if \<not> truthy content then Inl unexpectedStructureMessage
           else let parts = property content ''parts''
                in if \<not> truthy parts then Inl unexpectedStructureMessage
                   else andThen (greaterThanZero P (property parts ''length'')) (\<lambda>some'.
                     if \<not> some' then Inl unexpectedStructureMessage
                     else get P (property parts ''0'') ''text''))))"

text \<open>The inner \<^verbatim>\<open>try\<close>: \<^verbatim>\<open>JSON.parse(textResult)\<close>, any failure replaced by one message.\<close>

definition parseInner :: "platform \<Rightarrow> jsval \<Rightarrow> string + jsval" where
  "parseInner P textResult =
     (case andThen (ToString P textResult) (JSON_parse P) of
        Inl _ \<Rightarrow> Inl invalidInnerJsonMessage
      | Inr v \<Rightarrow> Inr v)"

definition invalidFormatMessage :: "string \<Rightarrow> string \<Rightarrow> string" where
  "invalidFormatMessage rawResponseText parserMessage =
     ''AI returned invalid response format: '' @ take 100 rawResponseText
       @ ''... (Error: '' @ parserMessage @ '')''"

text \<open>The body of the outer \<^verbatim>\<open>try\<close>, from the settled \<^verbatim>\<open>fetch\<close> on.\<close>

definition callGeminiApi_try :: "platform \<Rightarrow> fetch_result \<Rightarrow> jsval \<Rightarrow> string + jsval" where
  "callGeminiApi_try P settled responseSchema =
     (case settled of
        Rejected m \<Rightarrow> Inl m
      | Responded r \<Rightarrow>
          if \<not> ok r then
            andThen (body r) (\<lambda>txt.
              andThen (JSON_parse P txt) (\<lambda>errorData.
                andThen (errorReason P r errorData) (\<lambda>reason.
                  Inl (apiErrorMessage (status r) reason))))
          else
            andThen (body r) (\<lambda>rawResponseText.
              if rawResponseText = [] then Inl emptyResponseMessage
              else case JSON_parse P rawResponseText of
                     Inl m \<Rightarrow> Inl (invalidFormatMessage rawResponseText m)
                   | Inr result \<Rightarrow>
                       andThen (extractText P result) (\<lambda>textResult.
                         if truthy responseSchema then parseInner P textResult
                         else Inr textResult)))"

definition failureMessage :: "string \<Rightarrow> string" where
  "failureMessage m = ''Failed to connect to AI: '' @ m @ ''. Please try again.''"

definition placeholder :: "jsval \<Rightarrow> jsval" where
  "placeholder responseSchema = (if truthy responseSchema then JObj [] else JStr [])"

type_synonym gateway = "string \<Rightarrow> string \<Rightarrow> jsval \<Rightarrow> state \<Rightarrow> jsval completion \<times> state"

definition callGeminiApi :: "platform \<Rightarrow> transport \<Rightarrow> gateway" where
  "callGeminiApi P fetch promptText modelName responseSchema st =
     (let st1 = clearError st;
          req = buildRequest promptText modelName responseSchema;
          st2 = st1\<lparr>requests := requests st1 @ [req]\<rparr>
      in case callGeminiApi_try P (fetch req) responseSchema of
           Inr v \<Rightarrow> (Returned v, st2)
         | Inl m \<Rightarrow> (Returned (placeholder responseSchema), setError (failureMessage m) st2))"

section \<open>Prompts and schemas\<close>

definition newline :: string where
  "newline = [CHR 0x0A]"

definition apostrophe :: string where
  "apostrophe = [CHR 0x27]"

text \<open>The continuation lines of the template literals keep their indentation of eight blanks.\<close>

definition indent :: string where
  "indent = replicate 8 (CHR 0x20)"

definition enhancementPrompt :: "string \<Rightarrow> string" where
  "enhancementPrompt idea =
     ''You are an expert AI app developer. A user has a simple idea for an app. Your task is to expand this simple idea into a comprehensive, detailed, and inclusive prompt that can be used to generate a full app specification. Consider aspects like target audience, core features, key functionalities, potential user roles, non-functional requirements (performance, security, scalability), UI/UX considerations, and monetization strategies if applicable.''
     @ newline @ indent
     @ ''The output should be a well-structured prompt, ready to be fed into another AI model for app generation.''
     @ newline @ indent
     @ ''User's simple idea: '' @ apostrophe @ idea @ apostrophe"

definition appPreviewGenerationPrompt :: "string \<Rightarrow> string" where
  \<open>appPreviewGenerationPrompt promptToUse =
     ''Based on the following detailed app prompt, describe a conceptual overview and key features of the application. Provide the output as a JSON object with the following keys:''
     @ newline @ ''- "appName": (string) A suggested short, descriptive name for the app.''
     @ newline @ ''- "tagline": (string) A short, catchy phrase summarizing the app.''
     @ newline @ ''- "description": (string) A detailed overview of what the app does, who it's for, and its primary functionalities.''
     @ newline @ ''- "keyFeatures": (array of strings) A list of the most important features.''
     @ newline @ ''- "targetAudience": (string) The primary users the app is designed for.''
     @ newline
     @ newline @ ''Ensure the output is valid JSON.''
     @ newline @ ''Detailed App Prompt: '' @ apostrophe @ promptToUse @ apostrophe\<close>

definition stringType :: jsval where
  "stringType = JObj [(''type'', JStr ''STRING'')]"

definition stringArrayType :: jsval where
  "stringArrayType = JObj [(''type'', JStr ''ARRAY''), (''items'', stringType)]"

definition appPreviewSchema :: jsval where
  "appPreviewSchema =
     JObj [(''type'', JStr ''OBJECT''),
           (''properties'',
              JObj [(''appName'', stringType),
                    (''tagline'', stringType),
                    (''description'', stringType),
                    (''keyFeatures'', stringArrayType),
                    (''targetAudience'', stringType)]),
           (''required'',
              JArr [JStr ''appName'', JStr ''tagline'', JStr ''description'',
                    JStr ''keyFeatures'', JStr ''targetAudience''])]"

definition namesSlogansPrompt :: "platform \<Rightarrow> jsval \<Rightarrow> string + string" where
  \<open>namesSlogansPrompt P preview =
     andThen (ToString P (property preview ''description'')) (\<lambda>description.
       Inr (''Generate 5 creative and catchy app names and 5 taglines for an app based on the following description. Provide the output as a JSON object with two keys: "names" (array of strings) and "taglines" (array of strings).''
            @ newline @ indent @ ''App Description: '' @ description))\<close>

definition namesSlogansSchema :: jsval where
  "namesSlogansSchema =
     JObj [(''type'', JStr ''OBJECT''),
           (''properties'',
              JObj [(''names'', stringArrayType), (''taglines'', stringArrayType)]),
           (''required'', JArr [JStr ''names'', JStr ''taglines''])]"

definition monetizationPrompt :: "platform \<Rightarrow> jsval \<Rightarrow> string + string" where
  \<open>monetizationPrompt P preview =
     andThen (ToString P (property preview ''description'')) (\<lambda>description.
       Inr (''Based on the following app description, suggest 3-5 potential monetization strategies. For each strategy, briefly explain how it would work for this app. Provide the output as a JSON object with a single key "strategies" (array of objects, each with "name" and "description" keys).''
            @ newline @ indent @ ''App Description: '' @ description))\<close>

definition monetizationSchema :: jsval where
  "monetizationSchema =
     JObj [(''type'', JStr ''OBJECT''),
           (''properties'',
              JObj [(''strategies'',
                       JObj [(''type'', JStr ''ARRAY''),
                             (''items'',
                                JObj [(''type'', JStr ''OBJECT''),
                                      (''properties'',
                                         JObj [(''name'', stringType),
                                               (''description'', stringType)]),
                                      (''required'',
                                         JArr [JStr ''name'', JStr ''description''])])])]),
           (''required'', JArr [JStr ''strategies''])]"

text \<open>
  The tech-stack prompt converts the description first, then evaluates
  \<^verbatim>\<open>appPreview.keyFeatures ? appPreview.keyFeatures.join(', ') : 'Not provided'\<close>.
\<close>

definition techStackPrompt :: "platform \<Rightarrow> jsval \<Rightarrow> string + string" where
  \<open>techStackPrompt P preview =
     andThen (ToString P (property preview ''description'')) (\<lambda>description.
       andThen (let keyFeatures = property preview ''keyFeatures''
                in if truthy keyFeatures
                   then join P ''appPreview.keyFeatures.join'' keyFeatures '', ''
                   else Inr ''Not provided'')
         (\<lambda>features.
            Inr (''Based on the following app description and its key features, suggest a high-level technology stack (e.g., Frontend, Backend, Database, Mobile). Focus on common, modern technologies suitable for the described app. Provide the output as a JSON object with keys like "frontend", "backend", "database", "mobile" (each a string or array of strings, or null if not applicable). If a category is not directly relevant, you can omit it or set its value to null/empty array.''
                 @ newline @ indent @ ''App Description: '' @ description
                 @ newline @ indent @ ''Key Features: '' @ features)))\<close>

definition techStackSchema :: jsval where
  "techStackSchema =
     JObj [(''type'', JStr ''OBJECT''),
           (''properties'',
              JObj [(''frontend'', stringType),
                    (''backend'', stringType),
                    (''database'', stringType),
                    (''mobile'', stringType)])]"

section \<open>Event handlers\<close>

text \<open>
  Each handler is written over the gateway it awaits, so that its \<^verbatim>\<open>try\<close>/\<^verbatim>\<open>finally\<close> is a
  branch of the model; the component runs it with \<open>callGeminiApi\<close>. A handler hands back how
  it ended and the state it left. The deferred scrolling (\<^verbatim>\<open>setTimeout\<close>) and the console
  output change no slot and are left out.
\<close>

definition ideaGuidance :: string where
  "ideaGuidance = ''Please enter a simple idea to enhance.''"

definition promptGuidance :: string where
  "promptGuidance = ''Please enhance a prompt first or provide a custom prompt.''"

definition previewGuidance :: string where
  "previewGuidance = ''Please generate an app preview first.''"

definition previewFailure :: string where
  "previewFailure = ''Failed to generate a structured app preview. The AI might not have returned complete data or valid JSON.''"

definition namesFailure :: string where
  "namesFailure = ''Failed to generate names/slogans. AI response was incomplete or malformed.''"

definition monetizationFailure :: string where
  "monetizationFailure = ''Failed to generate monetization strategies. AI response was incomplete or malformed.''"

definition techStackFailure :: string where
  "techStackFailure = ''Failed to generate tech stack suggestions. AI response was incomplete or malformed.''"

text \<open>The slots a handler sets between its precondition and its gateway call.\<close>

definition enhanceLoading :: "state \<Rightarrow> state" where
  "enhanceLoading st =
     st\<lparr>isLoadingEnhance := True, appPreview := JNull, enhancedPrompt := JStr [],
        customPrompt := JStr [], appNamesSlogans := JNull, monetizationStrategies := JNull,
        techStackSuggestions := JNull\<rparr>"

definition previewLoading :: "state \<Rightarrow> state" where
  "previewLoading st =
     st\<lparr>isLoadingPreview := True, appPreview := JNull, appNamesSlogans := JNull,
        monetizationStrategies := JNull, techStackSuggestions := JNull\<rparr>"

definition namesLoading :: "state \<Rightarrow> state" where
  "namesLoading st = st\<lparr>isLoadingNames := True, appNamesSlogans := JNull\<rparr>"

definition monetizationLoading :: "state \<Rightarrow> state" where
  "monetizationLoading st = st\<lparr>isLoadingMonetization := True, monetizationStrategies := JNull\<rparr>"

definition techStackLoading :: "state \<Rightarrow> state" where
  "techStackLoading st = st\<lparr>isLoadingTechStack := True, techStackSuggestions := JNull\<rparr>"

definition handleEnhancePromptWith :: "gateway \<Rightarrow> state \<Rightarrow> unit completion \<times> state" where
  "handleEnhancePromptWith api st =
     (if trim (simpleIdea st) = [] then (Returned (), setError ideaGuidance st)
      else case api (enhancementPrompt (simpleIdea st)) defaultModel JNull (enhanceLoading st) of
             (Returned generatedPrompt, st') \<Rightarrow>
               (Returned (),
                (if truthy generatedPrompt
                 then st'\<lparr>enhancedPrompt := generatedPrompt, customPrompt := generatedPrompt,
                         isPromptEnhanced := True\<rparr>
                 else st')\<lparr>isLoadingEnhance := False\<rparr>)
           | (Threw m, st') \<Rightarrow> (Threw m, st'\<lparr>isLoadingEnhance := False\<rparr>))"

text \<open>\<^verbatim>\<open>customPrompt.trim()\<close> is a TypeError unless the slot holds a string.\<close>

definition trimError :: "platform \<Rightarrow> jsval \<Rightarrow> string" where
  "trimError P v =
     (if nullish v then TypeError_message P v ''trim''
      else NotAFunction_message P ''customPrompt.trim'')"

text \<open>The \<^verbatim>\<open>catch\<close> of this handler swallows what its gateway throws.\<close>

definition handleGenerateAppPreviewWith ::
  "platform \<Rightarrow> gateway \<Rightarrow> state \<Rightarrow> unit completion \<times> state" where
  "handleGenerateAppPreviewWith P api st =
     (case customPrompt st of
        JStr s \<Rightarrow>
          (let promptToUse = trim s
           in if promptToUse = [] then (Returned (), setError promptGuidance st)
              else case api (appPreviewGenerationPrompt promptToUse) ''gemini-2.0-flash''
                          appPreviewSchema (previewLoading st) of
                     (Returned parsedPreview, st') \<Rightarrow>
                       (Returned (),
                        (if truthy parsedPreview \<and> truthy (property parsedPreview ''description'')
                         then st'\<lparr>appPreview := parsedPreview\<rparr>
                         else (setError previewFailure st')\<lparr>appPreview := JNull\<rparr>)
                          \<lparr>isLoadingPreview := False\<rparr>)
                   | (Threw m, st') \<Rightarrow>
                       (Returned (), st'\<lparr>appPreview := JNull, isLoadingPreview := False\<rparr>))
      | v \<Rightarrow> (Threw (trimError P v), st))"

text \<open>The guard \<^verbatim>\<open>!appPreview || !appPreview.description\<close> of the three auxiliary handlers.\<close>

definition lacksDescription :: "jsval \<Rightarrow> bool" where
  "lacksDescription preview =
     (\<not> truthy preview \<or> \<not> truthy (property preview ''description''))"

text \<open>
  In the auxiliary handlers the prompt is built after the loading flag is set and before
  the \<^verbatim>\<open>try\<close>: an error thrown there leaves the handler at once.
\<close>

definition handleGenerateNamesSlogansWith ::
  "platform \<Rightarrow> gateway \<Rightarrow> state \<Rightarrow> unit completion \<times> state" where
  "handleGenerateNamesSlogansWith P api st =
     (if lacksDescription (appPreview st) then (Returned (), setError previewGuidance st)
      else case namesSlogansPrompt P (appPreview st) of
             Inl m \<Rightarrow> (Threw m, namesLoading st)
           | Inr prompt \<Rightarrow>
               (case api prompt ''gemini-2.0-flash'' namesSlogansSchema (namesLoading st) of
                  (Returned result, st') \<Rightarrow>
                    (Returned (),
                     (if truthy result \<and> truthy (property result ''names'')
                           \<and> truthy (property result ''taglines'')
                      then st'\<lparr>appNamesSlogans := result\<rparr>
                      else (setError namesFailure st')\<lparr>appNamesSlogans := JNull\<rparr>)
                       \<lparr>isLoadingNames := False\<rparr>)
                | (Threw m, st') \<Rightarrow> (Threw m, st'\<lparr>isLoadingNames := False\<rparr>)))"

definition handleGenerateMonetizationStrategiesWith ::
  "platform \<Rightarrow> gateway \<Rightarrow> state \<Rightarrow> unit completion \<times> state" where
  "handleGenerateMonetizationStrategiesWith P api st =
     (if lacksDescription (appPreview st) then (Returned (), setError previewGuidance st)
      else case monetizationPrompt P (appPreview st) of
             Inl m \<Rightarrow> (Threw m, monetizationLoading st)
           | Inr prompt \<Rightarrow>
               (case api prompt ''gemini-2.0-flash'' monetizationSchema
                       (monetizationLoading st) of
                  (Returned result, st') \<Rightarrow>
                    (Returned (),
                     (if truthy result \<and> truthy (property result ''strategies'')
                      then st'\<lparr>monetizationStrategies := property result ''strategies''\<rparr>
                      else (setError monetizationFailure st')\<lparr>monetizationStrategies := JNull\<rparr>)
                       \<lparr>isLoadingMonetization := False\<rparr>)
                | (Threw m, st') \<Rightarrow> (Threw m, st'\<lparr>isLoadingMonetization := False\<rparr>)))"

definition handleGenerateTechStackWith ::
  "platform \<Rightarrow> gateway \<Rightarrow> state \<Rightarrow> unit completion \<times> state" where
  "handleGenerateTechStackWith P api st =
     (if lacksDescription (appPreview st) then (Returned (), setError previewGuidance st)
      else case techStackPrompt P (appPreview st) of
             Inl m \<Rightarrow> (Threw m, techStackLoading st)
           | Inr prompt \<Rightarrow>
               (case api prompt ''gemini-2.0-flash'' techStackSchema (techStackLoading st) of
                  (Returned result, st') \<Rightarrow>
                    (Returned (),
                     (if truthy result
                      then st'\<lparr>techStackSuggestions := result\<rparr>
                      else (setError techStackFailure st')\<lparr>techStackSuggestions := JNull\<rparr>)
                       \<lparr>isLoadingTechStack := False\<rparr>)
                | (Threw m, st') \<Rightarrow> (Threw m, st'\<lparr>isLoadingTechStack := False\<rparr>)))"

text \<open>The handlers as the component binds them: over its own gateway call.\<close>

definition handleEnhancePrompt ::
  "platform \<Rightarrow> transport \<Rightarrow> state \<Rightarrow> unit completion \<times> state" where
  "handleEnhancePrompt P fetch = handleEnhancePromptWith (callGeminiApi P fetch)"

definition handleGenerateAppPreview ::
  "platform \<Rightarrow> transport \<Rightarrow> state \<Rightarrow> unit completion \<times> state" where
  "handleGenerateAppPreview P fetch = handleGenerateAppPreviewWith P (callGeminiApi P fetch)"

definition handleGenerateNamesSlogans ::
  "platform \<Rightarrow> transport \<Rightarrow> state \<Rightarrow> unit completion \<times> state" where
  "handleGenerateNamesSlogans P fetch = handleGenerateNamesSlogansWith P (callGeminiApi P fetch)"

definition handleGenerateMonetizationStrategies ::
  "platform \<Rightarrow> transport \<Rightarrow> state \<Rightarrow> unit completion \<times> state" where
  "handleGenerateMonetizationStrategies P fetch =
     handleGenerateMonetizationStrategiesWith P (callGeminiApi P fetch)"

definition handleGenerateTechStack ::
  "platform \<Rightarrow> transport \<Rightarrow> state \<Rightarrow> unit completion \<times> state" where
  "handleGenerateTechStack P fetch = handleGenerateTechStackWith P (callGeminiApi P fetch)"

text \<open>The \<^verbatim>\<open>onChange\<close> of the idea textarea and of the prompt textarea.\<close>

definition handleIdeaChange :: "string \<Rightarrow> state \<Rightarrow> state" where
  "handleIdeaChange v st =
     (clearError (st\<lparr>simpleIdea := v\<rparr>))
       \<lparr>isPromptEnhanced := False, appPreview := JNull, enhancedPrompt := JStr [],
        customPrompt := JStr [], appNamesSlogans := JNull, monetizationStrategies := JNull,
        techStackSuggestions := JNull\<rparr>"

definition handleCustomPromptChange :: "string \<Rightarrow> state \<Rightarrow> state" where
  "handleCustomPromptChange v st = st\<lparr>customPrompt := JStr v\<rparr>"

text \<open>The state of the freshly mounted component.\<close>

definition initialState :: state where
  "initialState =
     \<lparr>simpleIdea = [], enhancedPrompt = JStr [], customPrompt = JStr [], appPreview = JNull,
      isLoadingEnhance = False, isLoadingPreview = False, error = [],
      isPromptEnhanced = False, appNamesSlogans = JNull, monetizationStrategies = JNull,
      techStackSuggestions = JNull, isLoadingNames = False, isLoadingMonetization = False,
      isLoadingTechStack = False, requests = []\<rparr>"

text \<open>The five operations a user can trigger, each with its button's handler.\<close>

datatype operation = Enhance | Preview | NamesSlogans | Monetization | TechStack

fun triggerWith ::
  "platform \<Rightarrow> gateway \<Rightarrow> operation \<Rightarrow> state \<Rightarrow> unit completion \<times> state" where
  "triggerWith P api Enhance = handleEnhancePromptWith api"
| "triggerWith P api Preview = handleGenerateAppPreviewWith P api"
| "triggerWith P api NamesSlogans = handleGenerateNamesSlogansWith P api"
| "triggerWith P api Monetization = handleGenerateMonetizationStrategiesWith P api"
| "triggerWith P api TechStack = handleGenerateTechStackWith P api"

definition trigger ::
  "platform \<Rightarrow> transport \<Rightarrow> operation \<Rightarrow> state \<Rightarrow> unit completion \<times> state" where
  "trigger P fetch = triggerWith P (callGeminiApi P fetch)"

fun loadingFlag :: "operation \<Rightarrow> state \<Rightarrow> bool" where
  "loadingFlag Enhance = isLoadingEnhance"
| "loadingFlag Preview = isLoadingPreview"
| "loadingFlag NamesSlogans = isLoadingNames"
| "loadingFlag Monetization = isLoadingMonetization"
| "loadingFlag TechStack = isLoadingTechStack"

section \<open>Vocabulary of the properties\<close>

text \<open>Per operation: the guard that ends the handler early, and the message it leaves.\<close>

fun preconditionFails :: "operation \<Rightarrow> state \<Rightarrow> bool" where
  "preconditionFails Enhance st = (trim (simpleIdea st) = [])"
| "preconditionFails Preview st = (case customPrompt st of JStr s \<Rightarrow> trim s = [] | _ \<Rightarrow> False)"
| "preconditionFails NamesSlogans st = lacksDescription (appPreview st)"
| "preconditionFails Monetization st = lacksDescription (appPreview st)"
| "preconditionFails TechStack st = lacksDescription (appPreview st)"

fun guidance :: "operation \<Rightarrow> string" where
  "guidance Enhance = ideaGuidance"
| "guidance Preview = promptGuidance"
| "guidance NamesSlogans = previewGuidance"
| "guidance Monetization = previewGuidance"
| "guidance TechStack = previewGuidance"

text \<open>Per operation: the prompt, the schema and the state its gateway call is made with.\<close>

fun opPrompt :: "platform \<Rightarrow> operation \<Rightarrow> state \<Rightarrow> string + string" where
  "opPrompt P Enhance st = Inr (enhancementPrompt (simpleIdea st))"
| "opPrompt P Preview st =
     (case customPrompt st of
        JStr s \<Rightarrow> Inr (appPreviewGenerationPrompt (trim s))
      | v \<Rightarrow> Inl (trimError P v))"
| "opPrompt P NamesSlogans st = namesSlogansPrompt P (appPreview st)"
| "opPrompt P Monetization st = monetizationPrompt P (appPreview st)"
| "opPrompt P TechStack st = techStackPrompt P (appPreview st)"

fun opSchema :: "operation \<Rightarrow> jsval" where
  "opSchema Enhance = JNull"
| "opSchema Preview = appPreviewSchema"
| "opSchema NamesSlogans = namesSlogansSchema"
| "opSchema Monetization = monetizationSchema"
| "opSchema TechStack = techStackSchema"

fun opLoading :: "operation \<Rightarrow> state \<Rightarrow> state" where
  "opLoading Enhance = enhanceLoading"
| "opLoading Preview = previewLoading"
| "opLoading NamesSlogans = namesLoading"
| "opLoading Monetization = monetizationLoading"
| "opLoading TechStack = techStackLoading"

text \<open>A trigger reaches its gateway call when its guard passes and its prompt is built.\<close>

definition reachesGateway :: "platform \<Rightarrow> operation \<Rightarrow> state \<Rightarrow> string \<Rightarrow> bool" where
  "reachesGateway P op st prompt = (\<not> preconditionFails op st \<and> opPrompt P op st = Inr prompt)"

text \<open>
  The response shape the specification expects,
  \<^verbatim>\<open>{ candidates: [{ content: { parts: [{ text: <string> }] } }] }\<close>, written from its words and
  not from the code: the text of the first part of the first candidate when the response has
  that shape, and nothing otherwise.
\<close>

definition specExpectedText :: "jsval \<Rightarrow> string option" where
  "specExpectedText result =
     (case result of
        JObj envelopeFields \<Rightarrow>
          (case map_of envelopeFields ''candidates'' of
             Some (JArr (JObj candidate # _)) \<Rightarrow>
               (case map_of candidate ''content'' of
                  Some (JObj content) \<Rightarrow>
                    (case map_of content ''parts'' of
                       Some (JArr (JObj part # _)) \<Rightarrow>
                         (case map_of part ''text'' of
                            Some (JStr t) \<Rightarrow> Some t
                          | _ \<Rightarrow> None)
                     | _ \<Rightarrow> None)
                | _ \<Rightarrow> None)
           | _ \<Rightarrow> None)
      | _ \<Rightarrow> None)"

text \<open>\<open>embeds needle hay\<close>: the first string occurs inside the second.\<close>

definition embeds :: "string \<Rightarrow> string \<Rightarrow> bool" where
  "embeds needle hay =
     list_ex (\<lambda>i. take (length needle) (drop i hay) = needle) [0 ..< Suc (length hay)]"

section \<open>A concrete engine and concrete transports\<close>

text \<open>
  An engine for the examples: its parser knows the documents below and rejects every other
  text; its conversions answer the values the examples use.
\<close>

definition envelope :: "jsval \<Rightarrow> jsval" where
  "envelope textResult =
     JObj [(''candidates'',
              JArr [JObj [(''content'', JObj [(''parts'', JArr [JObj [(''text'', textResult)]])])]])]"

text \<open>
  A preview whose key features came back as a number instead of an array, as text and as
  value; a response whose first part carries no text; and the envelope text that carries a
  given inner text.
\<close>

definition numberFeaturesText :: string where
  \<open>numberFeaturesText = ''{"description":"Tracks daily habits","keyFeatures":7}''\<close>

definition numberFeaturesPreview :: jsval where
  "numberFeaturesPreview =
     JObj [(''description'', JStr ''Tracks daily habits''), (''keyFeatures'', JNum 7)]"

definition textlessResult :: jsval where
  "textlessResult =
     JObj [(''candidates'', JArr [JObj [(''content'', JObj [(''parts'', JArr [JObj []])])]])]"

definition escaped :: "string \<Rightarrow> string" where
  "escaped s =
     concat (map (\<lambda>c. if c = CHR 0x22 \<or> c = CHR 0x5C then [CHR 0x5C, c] else [c]) s)"

definition envelopeText :: "string \<Rightarrow> string" where
  \<open>envelopeText inner =
     ''{"candidates":[{"content":{"parts":[{"text":"'' @ escaped inner @ ''"}]}}]}''\<close>

definition demoDocuments :: "(string \<times> jsval) list" where
  \<open>demoDocuments =
     [(''{"candidates":[{"content":{"parts":[{"text":"Detailed habit tracker prompt"}]}}]}'',
         envelope (JStr ''Detailed habit tracker prompt'')),
      (''{"candidates":[{"content":{"parts":[{"text":"{}"}]}}]}'', envelope (JStr ''{}'')),
      (''{"candidates":[]}'', JObj [(''candidates'', JArr [])]),
      (''{"error":{"message":"quota exceeded"}}'',
         JObj [(''error'', JObj [(''message'', JStr ''quota exceeded'')])]),
      (''{}'', JObj []),
      (''null'', JNull),
      (''{"candidates":[{"content":{"parts":[{}]}}]}'', textlessResult),
      (numberFeaturesText, numberFeaturesPreview),
      (envelopeText numberFeaturesText, envelope (JStr numberFeaturesText))]\<close>

definition demoParse :: "string \<Rightarrow> string + jsval" where
  "demoParse s =
     (case map_of demoDocuments s of Some v \<Rightarrow> Inr v | None \<Rightarrow> Inl ''Unexpected token in JSON'')"

definition demoToString :: "jsval \<Rightarrow> string + string" where
  "demoToString v =
     (case v of
        JUndefined \<Rightarrow> Inr ''undefined''
      | JNull \<Rightarrow> Inr ''null''
      | JBool b \<Rightarrow> Inr (if b then ''true'' else ''false'')
      | JObj kvs \<Rightarrow>
          (if map_of kvs ''toString'' = None then Inr ''[object Object]''
           else Inl ''Cannot convert object to primitive value'')
      | JStr s \<Rightarrow> Inr s
      | _ \<Rightarrow> Inl ''conversion not provided by this engine'')"

definition demoGreaterThanZero :: "jsval \<Rightarrow> string + bool" where
  "demoGreaterThanZero v = Inl ''comparison not provided by this engine''"

definition demoTypeError :: "jsval \<Rightarrow> string \<Rightarrow> string" where
  "demoTypeError v name =
     ''Cannot read properties of '' @ (if v = JNull then ''null'' else ''undefined'')
       @ '' (reading '' @ apostrophe @ name @ apostrophe @ '')''"

definition demoNotAFunction :: "string \<Rightarrow> string" where
  "demoNotAFunction callee = callee @ '' is not a function''"

definition demoPlatform :: platform where
  "demoPlatform =
     \<lparr>JSON_parse = demoParse, ToString_other = demoToString,
      GreaterThanZero_other = demoGreaterThanZero, TypeError_message = demoTypeError,
      NotAFunction_message = demoNotAFunction\<rparr>"

text \<open>A transport that settles every request with the same response.\<close>

definition respond :: "response \<Rightarrow> transport" where
  "respond r req = Responded r"

definition okResponse :: "string \<Rightarrow> response" where
  "okResponse text = \<lparr>status = 200, statusText = ''OK'', body = Inr text\<rparr>"

definition enhancementReply :: response where
  \<open>enhancementReply =
     okResponse ''{"candidates":[{"content":{"parts":[{"text":"Detailed habit tracker prompt"}]}}]}''\<close>

definition emptyObjectReply :: response where
  \<open>emptyObjectReply = okResponse ''{"candidates":[{"content":{"parts":[{"text":"{}"}]}}]}''\<close>

definition numberFeaturesReply :: response where
  "numberFeaturesReply = okResponse (envelopeText numberFeaturesText)"

definition textlessReply :: response where
  \<open>textlessReply = okResponse ''{"candidates":[{"content":{"parts":[{}]}}]}''\<close>

definition emptyBodyReply :: response where
  "emptyBodyReply = okResponse []"

definition quotaReply :: response where
  \<open>quotaReply =
     \<lparr>status = 429, statusText = ''Too Many Requests'',
      body = Inr ''{"error":{"message":"quota exceeded"}}''\<rparr>\<close>

definition serverErrorReply :: response where
  "serverErrorReply =
     \<lparr>status = 500, statusText = ''Internal Server Error'', body = Inr ''Internal Server Error''\<rparr>"

text \<open>States of a session about a habit tracker.\<close>

definition habitPreview :: jsval where
  "habitPreview =
     JObj [(''appName'', JStr ''HabitFlow''),
           (''tagline'', JStr ''Build better days''),
           (''description'', JStr ''Tracks daily habits''),
           (''keyFeatures'', JArr [JStr ''streaks'', JStr ''reminders'']),
           (''targetAudience'', JStr ''busy professionals'')]"

definition ideaState :: state where
  "ideaState = initialState\<lparr>simpleIdea := ''a habit tracker''\<rparr>"

definition enhancedState :: state where
  "enhancedState =
     ideaState\<lparr>enhancedPrompt := JStr ''Detailed habit tracker prompt'',
               customPrompt := JStr ''Detailed habit tracker prompt'',
               isPromptEnhanced := True\<rparr>"

definition previewedState :: state where
  "previewedState = enhancedState\<lparr>appPreview := habitPreview\<rparr>"

text \<open>
  A session replayed from the mounted component: the idea is typed and enhanced, the preview
  call is answered with key features that are a number, and the names-and-slogans call is
  answered with an empty object and leaves its error. Every state of it renders: the only
  use of the key features in the markup is guarded by \<^verbatim>\<open>keyFeatures.length > 0\<close>, which is
  false for a number.
\<close>

definition sessionIdea :: state where
  "sessionIdea = handleIdeaChange ''a habit tracker'' initialState"

definition sessionEnhanced :: state where
  "sessionEnhanced = snd (handleEnhancePrompt demoPlatform (respond enhancementReply) sessionIdea)"

definition sessionPreviewed :: state where
  "sessionPreviewed =
     snd (handleGenerateAppPreview demoPlatform (respond numberFeaturesReply) sessionEnhanced)"

definition sessionNamesFailed :: state where
  "sessionNamesFailed =
     snd (handleGenerateNamesSlogans demoPlatform (respond emptyObjectReply) sessionPreviewed)"

section \<open>Facts about the gateway call\<close>

lemmas gateway_defs = callGeminiApi_def callGeminiApi_try_def extractText_def get_def
  greaterThanZero_def ToString_def parseInner_def errorReason_def ok_def placeholder_def
  clearError_def setError_def Let_def

lemmas demo_defs = demoPlatform_def demoParse_def demoDocuments_def demoToString_def
  demoGreaterThanZero_def demoTypeError_def demoNotAFunction_def envelope_def respond_def
  okResponse_def enhancementReply_def emptyObjectReply_def emptyBodyReply_def
  quotaReply_def serverErrorReply_def numberFeaturesReply_def numberFeaturesText_def
  textlessReply_def escaped_def envelopeText_def

text \<open>The gateway call changes the error slot and the request log, and nothing else.\<close>

lemma callGeminiApi_eq:
  "callGeminiApi P fetch p m s st =
     (Returned (case callGeminiApi_try P (fetch (buildRequest p m s)) s of
                  Inl c \<Rightarrow> placeholder s | Inr v \<Rightarrow> v),
      st\<lparr>error := (case callGeminiApi_try P (fetch (buildRequest p m s)) s of
                      Inl c \<Rightarrow> failureMessage c | Inr v \<Rightarrow> []),
         requests := requests st @ [buildRequest p m s]\<rparr>)"
  by (simp add: callGeminiApi_def Let_def clearError_def setError_def split: sum.splits)

lemma callGeminiApi_frame:
  assumes "callGeminiApi P fetch p m s st = (r, st')"
  shows "\<exists>e. st' = st\<lparr>error := e, requests := requests st @ [buildRequest p m s]\<rparr>"
  using assms unfolding callGeminiApi_eq by blast

lemma callGeminiApi_returned:
  "\<exists>v st'. callGeminiApi P fetch p m s st = (Returned v, st')"
  by (simp add: callGeminiApi_def Let_def split: sum.splits)

lemma non_success_throws:
  "\<not> ok r \<Longrightarrow> \<exists>m. callGeminiApi_try P (Responded r) s = Inl m"
  unfolding callGeminiApi_try_def
  by (cases "body r"; simp; cases "JSON_parse P (projr (body r))"; simp;
      cases "errorReason P r (projr (JSON_parse P (projr (body r))))"; simp)

text \<open>
  The failures the code does report, each stated on what the transport and the parser hand
  to the call: a rejected fetch, an empty body, an envelope the parser rejects, an envelope
  without candidates, and an inner text the parser rejects.
\<close>

lemma failure_sets_error_and_placeholder:
  assumes "callGeminiApi_try P (fetch (buildRequest p m s)) s = Inl cause"
  shows "callGeminiApi P fetch p m s st
           = (Returned (if truthy s then JObj [] else JStr []),
              st\<lparr>error := ''Failed to connect to AI: '' @ cause @ ''. Please try again.'',
                 requests := requests st @ [buildRequest p m s]\<rparr>)"
  using assms by (simp add: callGeminiApi_eq placeholder_def failureMessage_def)

lemma rejected_fetch_fails:
  "callGeminiApi_try P (Rejected m) s = Inl m"
  by (simp add: callGeminiApi_try_def)

lemma empty_body_fails:
  assumes "ok r" and "body r = Inr []"
  shows "callGeminiApi_try P (Responded r) s = Inl emptyResponseMessage"
  using assms by (simp add: callGeminiApi_try_def)

lemma unparseable_envelope_fails:
  assumes "ok r" and "body r = Inr raw" and "raw \<noteq> []" and "JSON_parse P raw = Inl complaint"
  shows "callGeminiApi_try P (Responded r) s = Inl (invalidFormatMessage raw complaint)"
  using assms by (simp add: callGeminiApi_try_def)

lemma no_candidates_fails:
  assumes "map_of kvs ''candidates'' = None \<or> map_of kvs ''candidates'' = Some (JArr [])"
  shows "extractText P (JObj kvs) = Inl unexpectedStructureMessage"
  using assms by (auto simp: extractText_def get_def greaterThanZero_def)

lemma unparseable_inner_fails:
  assumes "ToString P textResult = Inr txt" and "JSON_parse P txt = Inl complaint"
  shows "parseInner P textResult = Inl invalidInnerJsonMessage"
  using assms by (simp add: parseInner_def)

text \<open>On a response of the expected shape the code reads the text the shape names.\<close>

lemma conforming_response_text:
  assumes "specExpectedText result = Some t"
  shows "extractText P result = Inr (JStr t)"
  using assms
  by (auto simp: specExpectedText_def extractText_def get_def greaterThanZero_def
        split: jsval.splits option.splits list.splits)

text \<open>
  On a response whose first part carries no text the call returns \<^verbatim>\<open>undefined\<close> and sets no
  error when no schema is supplied, whatever the engine.
\<close>

lemma textless_part_any_engine:
  assumes "ok r" and "body r = Inr raw" and "raw \<noteq> []"
    and "JSON_parse P raw = Inr textlessResult" and "\<not> truthy s"
  shows "callGeminiApi P (respond r) p m s st
           = (Returned JUndefined,
              st\<lparr>error := [], requests := requests st @ [buildRequest p m s]\<rparr>)"
  using assms
  by (simp add: callGeminiApi_eq respond_def callGeminiApi_try_def extractText_def get_def
        greaterThanZero_def textlessResult_def)

section \<open>Facts about the handlers\<close>

lemmas handler_defs = handleEnhancePromptWith_def handleGenerateAppPreviewWith_def
  handleGenerateNamesSlogansWith_def handleGenerateMonetizationStrategiesWith_def
  handleGenerateTechStackWith_def handleEnhancePrompt_def handleGenerateAppPreview_def
  handleGenerateNamesSlogans_def handleGenerateMonetizationStrategies_def
  handleGenerateTechStack_def trigger_def Let_def

lemmas loading_defs = enhanceLoading_def previewLoading_def namesLoading_def
  monetizationLoading_def techStackLoading_def

lemmas state_defs = initialState_def ideaState_def enhancedState_def previewedState_def
  habitPreview_def

lemma trim_idea: "trim ''a habit tracker'' = ''a habit tracker''"
  by (simp add: trim_def isWhiteSpace_def)

lemma trim_prompt: "trim ''Detailed habit tracker prompt'' = ''Detailed habit tracker prompt''"
  by (simp add: trim_def isWhiteSpace_def)

lemma trim_blank: "trim ''   '' = []"
  by (simp add: trim_def isWhiteSpace_def)

text \<open>The states of the replayed session, computed.\<close>

lemma numberFeaturesPreview_read:
  "truthy numberFeaturesPreview"
  "property numberFeaturesPreview ''description'' = JStr ''Tracks daily habits''"
  "property numberFeaturesPreview ''keyFeatures'' = JNum 7"
  by (simp_all add: numberFeaturesPreview_def)

lemma names_prompt_numberFeatures:
  "\<exists>p. namesSlogansPrompt demoPlatform numberFeaturesPreview = Inr p"
  by (simp add: namesSlogansPrompt_def ToString_def numberFeaturesPreview_read)

lemma sessionIdea_eq: "sessionIdea = ideaState"
  by (simp add: sessionIdea_def handleIdeaChange_def clearError_def setError_def state_defs)

lemma sessionEnhanced_eq:
  "sessionEnhanced =
     enhancedState
       \<lparr>requests := [buildRequest (enhancementPrompt ''a habit tracker'') defaultModel JNull]\<rparr>"
  by (simp add: sessionEnhanced_def sessionIdea_eq handler_defs gateway_defs demo_defs
        state_defs loading_defs trim_idea)

lemma sessionPreviewed_eq:
  "sessionPreviewed =
     enhancedState
       \<lparr>appPreview := numberFeaturesPreview,
        requests := [buildRequest (enhancementPrompt ''a habit tracker'') defaultModel JNull,
                     buildRequest (appPreviewGenerationPrompt ''Detailed habit tracker prompt'')
                       ''gemini-2.0-flash'' appPreviewSchema]\<rparr>"
  by (simp add: sessionPreviewed_def sessionEnhanced_eq handler_defs gateway_defs demo_defs
        state_defs loading_defs trim_prompt appPreviewSchema_def numberFeaturesPreview_read)

lemma sessionNamesFailed_eq:
  "\<exists>namesPrompt.
     sessionNamesFailed =
       enhancedState
         \<lparr>appPreview := numberFeaturesPreview, error := namesFailure,
          requests := [buildRequest (enhancementPrompt ''a habit tracker'') defaultModel JNull,
                       buildRequest (appPreviewGenerationPrompt ''Detailed habit tracker prompt'')
                         ''gemini-2.0-flash'' appPreviewSchema,
                       buildRequest namesPrompt ''gemini-2.0-flash'' namesSlogansSchema]\<rparr>"
proof -
  obtain p where p: "namesSlogansPrompt demoPlatform numberFeaturesPreview = Inr p"
    using names_prompt_numberFeatures by blast
  have "sessionNamesFailed =
       enhancedState
         \<lparr>appPreview := numberFeaturesPreview, error := namesFailure,
          requests := [buildRequest (enhancementPrompt ''a habit tracker'') defaultModel JNull,
                       buildRequest (appPreviewGenerationPrompt ''Detailed habit tracker prompt'')
                         ''gemini-2.0-flash'' appPreviewSchema,
                       buildRequest p ''gemini-2.0-flash'' namesSlogansSchema]\<rparr>"
    using p
    by (simp add: sessionNamesFailed_def sessionPreviewed_eq handler_defs gateway_defs demo_defs
          state_defs loading_defs lacksDescription_def namesSlogansSchema_def
          numberFeaturesPreview_read)
  then show ?thesis by blast
qed

text \<open>
  What the tech-stack trigger does in the last state of the session: the guard passes, the
  loading flag is set and the slot cleared, and the prompt throws at
  \<^verbatim>\<open>appPreview.keyFeatures.join\<close> before the \<^verbatim>\<open>try\<close>, so that no gateway call is made.
\<close>

lemma tech_stack_crash:
  "trigger demoPlatform fetch TechStack sessionNamesFailed
     = (Threw ''appPreview.keyFeatures.join is not a function'',
        sessionNamesFailed\<lparr>isLoadingTechStack := True\<rparr>)"
proof -
  obtain namesPrompt where session:
    "sessionNamesFailed =
       enhancedState
         \<lparr>appPreview := numberFeaturesPreview, error := namesFailure,
          requests := [buildRequest (enhancementPrompt ''a habit tracker'') defaultModel JNull,
                       buildRequest (appPreviewGenerationPrompt ''Detailed habit tracker prompt'')
                         ''gemini-2.0-flash'' appPreviewSchema,
                       buildRequest namesPrompt ''gemini-2.0-flash'' namesSlogansSchema]\<rparr>"
    using sessionNamesFailed_eq by blast
  show ?thesis
    unfolding session
    by (simp add: handler_defs loading_defs state_defs lacksDescription_def techStackPrompt_def
          join_def ToString_def demoPlatform_def demoNotAFunction_def
          numberFeaturesPreview_read)
qed

lemma sessionNamesFailed_read:
  "error sessionNamesFailed = namesFailure"
  "appPreview sessionNamesFailed = numberFeaturesPreview"
  "\<not> isLoadingTechStack sessionNamesFailed"
proof -
  obtain namesPrompt where session:
    "sessionNamesFailed =
       enhancedState
         \<lparr>appPreview := numberFeaturesPreview, error := namesFailure,
          requests := [buildRequest (enhancementPrompt ''a habit tracker'') defaultModel JNull,
                       buildRequest (appPreviewGenerationPrompt ''Detailed habit tracker prompt'')
                         ''gemini-2.0-flash'' appPreviewSchema,
                       buildRequest namesPrompt ''gemini-2.0-flash'' namesSlogansSchema]\<rparr>"
    using sessionNamesFailed_eq by blast
  show "error sessionNamesFailed = namesFailure"
    "appPreview sessionNamesFailed = numberFeaturesPreview"
    "\<not> isLoadingTechStack sessionNamesFailed"
    unfolding session by (simp_all add: state_defs)
qed

text \<open>An absent value is falsy, so an absent preview or description fails the guard.\<close>

lemma absent_lacksDescription:
  "lacksDescription JNull" "property v ''description'' = JUndefined \<Longrightarrow> lacksDescription v"
  by (simp_all add: lacksDescription_def)

text \<open>No handler resets the flag that reveals the enhanced-prompt section.\<close>

lemma trigger_isPromptEnhanced:
  assumes "isPromptEnhanced st"
  shows "isPromptEnhanced (snd (trigger P fetch op st))"
  using assms
  by (cases op)
     (simp_all add: handler_defs loading_defs callGeminiApi_eq setError_def
        split: jsval.splits sum.splits)

lemma tech_prompt_habit:
  "\<exists>p. techStackPrompt demoPlatform habitPreview = Inr p"
  by (simp add: techStackPrompt_def habitPreview_def join_def ToString_def)

text \<open>
  With a non-success status, a body that parses and a reason that converts, the thrown
  message carries the decimal status code.
\<close>

lemma embeds_middle: "embeds needle (front @ needle @ back)"
  unfolding embeds_def list_ex_iff
  by (rule bexI [of _ "length front"]) simp_all

lemma api_error_embeds_status:
  assumes "\<not> ok r" and "body r = Inr txt" and "JSON_parse P txt = Inr errorData"
    and "errorReason P r errorData = Inr reason"
  shows "callGeminiApi_try P (Responded r) s = Inl (apiErrorMessage (status r) reason)"
    and "embeds (showNat (status r)) (failureMessage (apiErrorMessage (status r) reason))"
proof -
  show "callGeminiApi_try P (Responded r) s = Inl (apiErrorMessage (status r) reason)"
    using assms by (simp add: callGeminiApi_try_def)
  have "failureMessage (apiErrorMessage (status r) reason)
          = ''Failed to connect to AI: API error: '' @ showNat (status r)
              @ ('' - '' @ reason @ ''. Please try again.'')"
    by (simp add: failureMessage_def apiErrorMessage_def)
  then show "embeds (showNat (status r)) (failureMessage (apiErrorMessage (status r) reason))"
    using embeds_middle by metis
qed

text \<open>
  With a non-success status and a body the parser rejects, the message set is the complaint
  of the parser, whatever the status.
\<close>

lemma unparseable_error_body_message:
  assumes "\<not> ok r" and "body r = Inr txt" and "JSON_parse P txt = Inl complaint"
  shows "callGeminiApi P (respond r) promptText modelName responseSchema st
           = (Returned (placeholder responseSchema),
              st\<lparr>error := failureMessage complaint,
                 requests := requests st @ [buildRequest promptText modelName responseSchema]\<rparr>)"
  using assms by (simp add: callGeminiApi_eq respond_def callGeminiApi_try_def)

text \<open>
  Once a handler has reached its gateway call, its \<^verbatim>\<open>finally\<close> clears the loading flag
  whatever the gateway does; the flag can stay set only when the handler leaves before.
\<close>

lemma finally_clears_flag_after_call:
  assumes "reachesGateway P op st prompt"
  shows "\<not> loadingFlag op (snd (triggerWith P api op st))"
proof (cases "api prompt defaultModel (opSchema op) (opLoading op st)")
  case (Pair outcome st')
  with assms show ?thesis
    by (cases op; cases outcome)
       (auto simp: reachesGateway_def handler_defs defaultModel_def split: jsval.splits)
qed

text \<open>
  The gateway call forgets the previous error, a failing guard replaces it, and so every
  trigger that returns leaves the state it would have left from a cleared error.
\<close>

lemma returning_trigger_forgets_old_error:
  "callGeminiApi P fetch promptText modelName responseSchema (st\<lparr>error := old\<rparr>)
     = callGeminiApi P fetch promptText modelName responseSchema (st\<lparr>error := []\<rparr>)
   \<and> (preconditionFails op st \<longrightarrow>
        error (snd (trigger P fetch op (st\<lparr>error := old\<rparr>))) = guidance op)
   \<and> (fst (trigger P fetch op (st\<lparr>error := old\<rparr>)) = Returned () \<longrightarrow>
        trigger P fetch op (st\<lparr>error := old\<rparr>) = trigger P fetch op (st\<lparr>error := []\<rparr>))"
proof (intro conjI impI)
  show "callGeminiApi P fetch promptText modelName responseSchema (st\<lparr>error := old\<rparr>)
     = callGeminiApi P fetch promptText modelName responseSchema (st\<lparr>error := []\<rparr>)"
    by (simp add: callGeminiApi_eq)
next
  assume "preconditionFails op st"
  then show "error (snd (trigger P fetch op (st\<lparr>error := old\<rparr>))) = guidance op"
    by (cases op) (auto simp: handler_defs setError_def split: jsval.splits)
next
  assume "fst (trigger P fetch op (st\<lparr>error := old\<rparr>)) = Returned ()"
  then show "trigger P fetch op (st\<lparr>error := old\<rparr>) = trigger P fetch op (st\<lparr>error := []\<rparr>)"
    by (cases op)
       (auto simp: handler_defs loading_defs callGeminiApi_eq setError_def
          split: jsval.splits sum.splits if_splits)
qed

section \<open>The claims\<close>

text \<open>
  Claim C1 fails on the code. The call never throws (lemma \<open>callGeminiApi_returned\<close>) and it
  reports the failures listed above, but its test of the response stops at the first part:
  a response with status 200 whose first part carries no text does not have the shape the
  specification expects, and without a schema the call returns \<^verbatim>\<open>undefined\<close> and sets no
  error. The enhance handler then ends with nothing shown: no prompt and no error.
\<close>

theorem textless_part_returned_silently:
  "JSON_parse demoPlatform (projr (body textlessReply)) = Inr textlessResult
   \<and> specExpectedText textlessResult = None
   \<and> callGeminiApi demoPlatform (respond textlessReply) ''hello'' defaultModel JNull initialState
       = (Returned JUndefined,
          initialState\<lparr>error := [], requests := [buildRequest ''hello'' defaultModel JNull]\<rparr>)
   \<and> handleEnhancePrompt demoPlatform (respond textlessReply) ideaState
       = (Returned (),
          ideaState
            \<lparr>error := [],
             requests := [buildRequest (enhancementPrompt ''a habit tracker'') defaultModel JNull]\<rparr>)"
proof -
  have a: "JSON_parse demoPlatform (projr (body textlessReply)) = Inr textlessResult"
    by (simp add: demo_defs)
  have b: "specExpectedText textlessResult = None"
    by (simp add: specExpectedText_def textlessResult_def)
  have c: "callGeminiApi_try demoPlatform (Responded textlessReply) JNull = Inr JUndefined"
    by (simp add: gateway_defs demo_defs textlessResult_def)
  have d: "callGeminiApi demoPlatform (respond textlessReply) ''hello'' defaultModel JNull
             initialState
       = (Returned JUndefined,
          initialState\<lparr>error := [], requests := [buildRequest ''hello'' defaultModel JNull]\<rparr>)"
    using c by (simp add: callGeminiApi_eq respond_def initialState_def)
  have e: "handleEnhancePrompt demoPlatform (respond textlessReply) ideaState
       = (Returned (),
          ideaState
            \<lparr>error := [],
             requests := [buildRequest (enhancementPrompt ''a habit tracker'') defaultModel JNull]\<rparr>)"
    using c
    by (simp add: handler_defs callGeminiApi_eq respond_def loading_defs state_defs trim_idea)
  show ?thesis
    by (intro conjI a b d e)
qed

text \<open>
  Claim C2. When the guard of a triggered operation fails (the idea is empty or only white
  space for enhance; the editable prompt is empty or only white space for preview; the
  preview or its description is absent, or otherwise falsy, for the three auxiliary
  generations), the handler returns at once: the state it leaves is the state it found with
  the error slot set to the guidance string of the operation. So no request is issued and no
  loading flag is set.
\<close>

theorem precondition_failure_short_circuits:
  assumes "preconditionFails op st"
  shows "trigger P fetch op st = (Returned (), st\<lparr>error := guidance op\<rparr>)
         \<and> requests (snd (trigger P fetch op st)) = requests st"
  using assms
  by (cases op) (auto simp: handler_defs setError_def split: jsval.splits)

theorem precondition_failure_short_circuits_witness:
  "preconditionFails Enhance (initialState\<lparr>simpleIdea := ''   ''\<rparr>)
   \<and> trigger demoPlatform (respond enhancementReply) Enhance
        (initialState\<lparr>simpleIdea := ''   ''\<rparr>)
       = (Returned (),
          initialState\<lparr>simpleIdea := ''   '', error := ''Please enter a simple idea to enhance.''\<rparr>)
   \<and> preconditionFails NamesSlogans enhancedState
   \<and> trigger demoPlatform (respond enhancementReply) NamesSlogans enhancedState
       = (Returned (), enhancedState\<lparr>error := ''Please generate an app preview first.''\<rparr>)"
proof -
  have a: "preconditionFails Enhance (initialState\<lparr>simpleIdea := ''   ''\<rparr>)"
    by (simp add: trim_blank)
  have b: "preconditionFails NamesSlogans enhancedState"
    by (simp add: lacksDescription_def state_defs)
  show ?thesis
    using a b
      precondition_failure_short_circuits [OF a, of demoPlatform "respond enhancementReply"]
      precondition_failure_short_circuits [OF b, of demoPlatform "respond enhancementReply"]
    by (simp add: ideaGuidance_def previewGuidance_def)
qed

text \<open>
  Claim C3 fails on the code. The gateway reports a failure by the value it returns, so no
  handler can tell a failed call from a result. A preview call that meets status 429 has the
  message of the gateway replaced by the message of the preview handler, and a tech-stack
  call that meets the same failure stores the empty-object placeholder of the gateway in its
  result slot.
\<close>

theorem gateway_failure_misreported:
  "error (snd (callGeminiApi demoPlatform (respond quotaReply)
                 (appPreviewGenerationPrompt ''Detailed habit tracker prompt'') defaultModel
                 appPreviewSchema (previewLoading enhancedState)))
     = ''Failed to connect to AI: API error: 429 - quota exceeded. Please try again.''
   \<and> error (snd (handleGenerateAppPreview demoPlatform (respond quotaReply) enhancedState))
     = ''Failed to generate a structured app preview. The AI might not have returned complete data or valid JSON.''
   \<and> techStackSuggestions
        (snd (handleGenerateTechStack demoPlatform (respond quotaReply) previewedState))
     = JObj []"
proof -
  have a: "callGeminiApi_try demoPlatform (Responded quotaReply) s
             = Inl ''API error: 429 - quota exceeded''" for s
    by (simp add: gateway_defs demo_defs apiErrorMessage_def showNat.simps)
  have b: "truthy appPreviewSchema" "truthy techStackSchema"
    by (simp_all add: appPreviewSchema_def techStackSchema_def)
  obtain p where p: "techStackPrompt demoPlatform
       (JObj [(''appName'', JStr ''HabitFlow''),
           (''tagline'', JStr ''Build better days''),
           (''description'', JStr ''Tracks daily habits''),
           (''keyFeatures'', JArr [JStr ''streaks'', JStr ''reminders'']),
           (''targetAudience'', JStr ''busy professionals'')]) = Inr p"
    using tech_prompt_habit unfolding habitPreview_def by blast
  show ?thesis
    using a b p
    by (simp add: handler_defs callGeminiApi_eq respond_def placeholder_def failureMessage_def
          setError_def previewFailure_def state_defs trim_prompt lacksDescription_def
          loading_defs)
qed

text \<open>
  Claim C4. Whatever the state, after the change handler of the idea textarea has run, the
  enhanced prompt, the editable prompt and the error are the empty string, the prompt counts
  as not enhanced, and the preview, the names and slogans, the monetization strategies and
  the tech-stack suggestion are absent; the idea is the text typed.
\<close>

theorem idea_change_resets_downstream:
  "simpleIdea (handleIdeaChange v st) = v
   \<and> enhancedPrompt (handleIdeaChange v st) = JStr []
   \<and> customPrompt (handleIdeaChange v st) = JStr []
   \<and> error (handleIdeaChange v st) = []
   \<and> isPromptEnhanced (handleIdeaChange v st) = False
   \<and> appPreview (handleIdeaChange v st) = JNull
   \<and> appNamesSlogans (handleIdeaChange v st) = JNull
   \<and> monetizationStrategies (handleIdeaChange v st) = JNull
   \<and> techStackSuggestions (handleIdeaChange v st) = JNull"
  by (simp add: handleIdeaChange_def clearError_def setError_def)

theorem idea_change_resets_downstream_witness:
  "handleIdeaChange ''a recipe box'' (previewedState\<lparr>error := namesFailure\<rparr>)
     = initialState\<lparr>simpleIdea := ''a recipe box''\<rparr>"
  using idea_change_resets_downstream [of "''a recipe box''" "previewedState\<lparr>error := namesFailure\<rparr>"]
  by (simp add: handleIdeaChange_def clearError_def setError_def previewedState_def
        enhancedState_def ideaState_def initialState_def)

text \<open>
  Claim C5. When enhancement is triggered with a non-blank idea and the gateway call returns
  a non-empty text, then after the handler the enhanced prompt and the editable prompt both
  hold that text and the prompt counts as enhanced.
\<close>

theorem enhancement_seeds_both_prompts:
  assumes "trim (simpleIdea st) \<noteq> []"
    and "callGeminiApi P fetch (enhancementPrompt (simpleIdea st)) defaultModel JNull
           (enhanceLoading st) = (Returned (JStr t), st')"
    and "t \<noteq> []"
  shows "enhancedPrompt (snd (handleEnhancePrompt P fetch st)) = JStr t
         \<and> customPrompt (snd (handleEnhancePrompt P fetch st)) = JStr t
         \<and> isPromptEnhanced (snd (handleEnhancePrompt P fetch st))"
  using assms by (simp add: handler_defs)

theorem enhancement_seeds_both_prompts_witness:
  "trim (simpleIdea ideaState) \<noteq> []
   \<and> callGeminiApi demoPlatform (respond enhancementReply)
        (enhancementPrompt (simpleIdea ideaState)) defaultModel JNull (enhanceLoading ideaState)
       = (Returned (JStr ''Detailed habit tracker prompt''),
          (enhanceLoading ideaState)
            \<lparr>requests := [buildRequest (enhancementPrompt ''a habit tracker'') defaultModel JNull]\<rparr>)
   \<and> enhancedPrompt (snd (handleEnhancePrompt demoPlatform (respond enhancementReply) ideaState))
       = JStr ''Detailed habit tracker prompt''
   \<and> customPrompt (snd (handleEnhancePrompt demoPlatform (respond enhancementReply) ideaState))
       = JStr ''Detailed habit tracker prompt''
   \<and> isPromptEnhanced (snd (handleEnhancePrompt demoPlatform (respond enhancementReply) ideaState))"
proof -
  have a: "trim (simpleIdea ideaState) \<noteq> []"
    by (simp add: state_defs trim_idea)
  have b: "callGeminiApi demoPlatform (respond enhancementReply)
        (enhancementPrompt (simpleIdea ideaState)) defaultModel JNull (enhanceLoading ideaState)
       = (Returned (JStr ''Detailed habit tracker prompt''),
          (enhanceLoading ideaState)
            \<lparr>requests := [buildRequest (enhancementPrompt ''a habit tracker'') defaultModel JNull]\<rparr>)"
    by (simp add: gateway_defs demo_defs state_defs loading_defs)
  have c: "''Detailed habit tracker prompt'' \<noteq> []"
    by simp
  show ?thesis
    using a b enhancement_seeds_both_prompts [OF a b c] by simp
qed

text \<open>
  Claim C6. When preview generation is triggered with a non-blank editable prompt and the
  gateway call returns a value without a truthy description (the description is missing or
  empty; the empty object returned after a gateway failure is such a value), then after the
  handler the preview is absent and the error is not empty.
\<close>

theorem preview_without_description_fails:
  assumes "customPrompt st = JStr s"
    and "trim s \<noteq> []"
    and "callGeminiApi P fetch (appPreviewGenerationPrompt (trim s)) defaultModel
           appPreviewSchema (previewLoading st) = (Returned v, st')"
    and "\<not> truthy (property v ''description'')"
  shows "appPreview (snd (handleGenerateAppPreview P fetch st)) = JNull
         \<and> error (snd (handleGenerateAppPreview P fetch st)) \<noteq> []"
  using assms by (simp add: handler_defs defaultModel_def setError_def previewFailure_def)

theorem preview_without_description_fails_witness:
  "customPrompt enhancedState = JStr ''Detailed habit tracker prompt''
   \<and> trim ''Detailed habit tracker prompt'' \<noteq> []
   \<and> callGeminiApi demoPlatform (respond quotaReply)
        (appPreviewGenerationPrompt (trim ''Detailed habit tracker prompt'')) defaultModel
        appPreviewSchema (previewLoading enhancedState)
       = (Returned (JObj []),
          (previewLoading enhancedState)
            \<lparr>error := ''Failed to connect to AI: API error: 429 - quota exceeded. Please try again.'',
             requests := [buildRequest (appPreviewGenerationPrompt ''Detailed habit tracker prompt'')
                            defaultModel appPreviewSchema]\<rparr>)
   \<and> \<not> truthy (property (JObj []) ''description'')
   \<and> appPreview (snd (handleGenerateAppPreview demoPlatform (respond quotaReply) enhancedState))
       = JNull
   \<and> error (snd (handleGenerateAppPreview demoPlatform (respond quotaReply) enhancedState)) \<noteq> []"
proof -
  have a: "customPrompt enhancedState = JStr ''Detailed habit tracker prompt''"
    by (simp add: state_defs)
  have b: "trim ''Detailed habit tracker prompt'' \<noteq> []"
    by (simp add: trim_prompt)
  have c: "callGeminiApi demoPlatform (respond quotaReply)
        (appPreviewGenerationPrompt (trim ''Detailed habit tracker prompt'')) defaultModel
        appPreviewSchema (previewLoading enhancedState)
       = (Returned (JObj []),
          (previewLoading enhancedState)
            \<lparr>error := ''Failed to connect to AI: API error: 429 - quota exceeded. Please try again.'',
             requests := [buildRequest (appPreviewGenerationPrompt ''Detailed habit tracker prompt'')
                            defaultModel appPreviewSchema]\<rparr>)"
    by (simp add: trim_prompt gateway_defs demo_defs state_defs loading_defs appPreviewSchema_def
          failureMessage_def apiErrorMessage_def showNat.simps)
  have d: "\<not> truthy (property (JObj []) ''description'')"
    by simp
  show ?thesis
    using a b c d preview_without_description_fails [OF a b c d] by simp
qed

text \<open>
  Claim C7 fails on the code. In the replayed session the names call has left its error;
  the tech-stack trigger passes its guard and throws while it builds its prompt, before the
  gateway call that would have cleared the error: no request is issued and the previous
  error is still in the slot.
\<close>

theorem stale_error_survives_crash:
  "error sessionNamesFailed
     = ''Failed to generate names/slogans. AI response was incomplete or malformed.''
   \<and> property (appPreview sessionNamesFailed) ''keyFeatures'' = JNum 7
   \<and> fst (trigger demoPlatform (respond emptyObjectReply) TechStack sessionNamesFailed)
       = Threw ''appPreview.keyFeatures.join is not a function''
   \<and> error (snd (trigger demoPlatform (respond emptyObjectReply) TechStack sessionNamesFailed))
       = ''Failed to generate names/slogans. AI response was incomplete or malformed.''
   \<and> requests (snd (trigger demoPlatform (respond emptyObjectReply) TechStack sessionNamesFailed))
       = requests sessionNamesFailed"
  by (simp add: tech_stack_crash sessionNamesFailed_read numberFeaturesPreview_read
        namesFailure_def)

text \<open>
  Claim C8 fails on the code. A response with status 500 whose body is not JSON makes
  \<^verbatim>\<open>response.json()\<close> throw before the message with the status is built: the error shown
  carries the complaint of the parser and not the status code.
\<close>

theorem non_json_error_body_hides_status:
  "\<not> ok serverErrorReply
   \<and> showNat (status serverErrorReply) = ''500''
   \<and> callGeminiApi demoPlatform (respond serverErrorReply) ''hello'' defaultModel JNull
        initialState
       = (Returned (JStr []),
          initialState
            \<lparr>error := ''Failed to connect to AI: Unexpected token in JSON. Please try again.'',
             requests := [buildRequest ''hello'' defaultModel JNull]\<rparr>)
   \<and> \<not> embeds ''500'' ''Failed to connect to AI: Unexpected token in JSON. Please try again.''"
proof -
  have a: "\<not> ok serverErrorReply \<and> showNat (status serverErrorReply) = ''500''"
    by (simp add: ok_def serverErrorReply_def showNat.simps)
  have b: "callGeminiApi demoPlatform (respond serverErrorReply) ''hello'' defaultModel JNull
        initialState
       = (Returned (JStr []),
          initialState
            \<lparr>error := ''Failed to connect to AI: Unexpected token in JSON. Please try again.'',
             requests := [buildRequest ''hello'' defaultModel JNull]\<rparr>)"
    by (simp add: gateway_defs demo_defs initialState_def failureMessage_def)
  have c: "\<not> embeds ''500'' ''Failed to connect to AI: Unexpected token in JSON. Please try again.''"
    by code_simp
  show ?thesis
    using a b c by simp
qed

text \<open>
  Claim C9 fails on the code. The auxiliary handlers set their loading flag and build their
  prompt before the \<^verbatim>\<open>try\<close>. In the replayed session the tech-stack trigger throws there, the
  exception leaves the handler, and the loading flag stays set.
\<close>

theorem loading_flag_stuck_after_crash:
  "\<not> loadingFlag TechStack sessionNamesFailed
   \<and> \<not> preconditionFails TechStack sessionNamesFailed
   \<and> fst (trigger demoPlatform (respond emptyObjectReply) TechStack sessionNamesFailed)
       = Threw ''appPreview.keyFeatures.join is not a function''
   \<and> loadingFlag TechStack
        (snd (trigger demoPlatform (respond emptyObjectReply) TechStack sessionNamesFailed))"
  by (simp add: tech_stack_crash sessionNamesFailed_read numberFeaturesPreview_read
        lacksDescription_def)

text \<open>
  Claim C10. If the prompt already counts as enhanced and enhancement is triggered again
  with a non-blank idea, and the gateway call returns the empty string, then after the
  handler the prompt still counts as enhanced while the enhanced prompt and the editable
  prompt are both the empty string. More generally no triggered operation turns the flag
  off: only the change handler of the idea does.
\<close>

theorem failed_reenhancement_keeps_flag:
  assumes "isPromptEnhanced st"
    and "trim (simpleIdea st) \<noteq> []"
    and "callGeminiApi P fetch (enhancementPrompt (simpleIdea st)) defaultModel JNull
           (enhanceLoading st) = (Returned (JStr []), st')"
  shows "isPromptEnhanced (snd (handleEnhancePrompt P fetch st))
         \<and> enhancedPrompt (snd (handleEnhancePrompt P fetch st)) = JStr []
         \<and> customPrompt (snd (handleEnhancePrompt P fetch st)) = JStr []
         \<and> isPromptEnhanced (snd (trigger P fetch op st))"
proof -
  from callGeminiApi_frame [OF assms(3)]
  obtain e where "st' = (enhanceLoading st)\<lparr>error := e,
      requests := requests (enhanceLoading st)
        @ [buildRequest (enhancementPrompt (simpleIdea st)) defaultModel JNull]\<rparr>"
    by blast
  then have "isPromptEnhanced st' = isPromptEnhanced st \<and> enhancedPrompt st' = JStr []
        \<and> customPrompt st' = JStr []"
    by (simp add: enhanceLoading_def)
  with assms trigger_isPromptEnhanced [OF assms(1)] show ?thesis
    by (simp add: handler_defs)
qed

theorem failed_reenhancement_keeps_flag_witness:
  "isPromptEnhanced enhancedState
   \<and> trim (simpleIdea enhancedState) \<noteq> []
   \<and> callGeminiApi demoPlatform (respond emptyBodyReply)
        (enhancementPrompt (simpleIdea enhancedState)) defaultModel JNull
        (enhanceLoading enhancedState)
       = (Returned (JStr []),
          (enhanceLoading enhancedState)
            \<lparr>error := ''Failed to connect to AI: Empty response from AI. Please try again.. Please try again.'',
             requests := [buildRequest (enhancementPrompt ''a habit tracker'') defaultModel JNull]\<rparr>)
   \<and> isPromptEnhanced (snd (handleEnhancePrompt demoPlatform (respond emptyBodyReply) enhancedState))
   \<and> enhancedPrompt (snd (handleEnhancePrompt demoPlatform (respond emptyBodyReply) enhancedState))
       = JStr []
   \<and> customPrompt (snd (handleEnhancePrompt demoPlatform (respond emptyBodyReply) enhancedState))
       = JStr []"
proof -
  have a: "isPromptEnhanced enhancedState"
    by (simp add: state_defs)
  have b: "trim (simpleIdea enhancedState) \<noteq> []"
    by (simp add: state_defs trim_idea)
  have c: "callGeminiApi demoPlatform (respond emptyBodyReply)
        (enhancementPrompt (simpleIdea enhancedState)) defaultModel JNull
        (enhanceLoading enhancedState)
       = (Returned (JStr []),
          (enhanceLoading enhancedState)
            \<lparr>error := ''Failed to connect to AI: Empty response from AI. Please try again.. Please try again.'',
             requests := [buildRequest (enhancementPrompt ''a habit tracker'') defaultModel JNull]\<rparr>)"
    by (simp add: gateway_defs demo_defs state_defs loading_defs failureMessage_def
          emptyResponseMessage_def)
  show ?thesis
    using a b c failed_reenhancement_keeps_flag [OF a b c, of Enhance] by simp
qed

end
